theory Spec2Isabelle
  imports Main
begin

section \<open>Messages\<close>

text \<open>
  The message classes of the agent (\<^verbatim>\<open>HumanMessage\<close>, \<^verbatim>\<open>AIMessage\<close>,
  \<^verbatim>\<open>SystemMessage\<close>, \<^verbatim>\<open>ToolMessage\<close>) as one datatype. A message's
  \<^verbatim>\<open>content\<close> is a string, an array of blocks, or (at run time, outside the declared
  type) anything else. An element of a content array is an object, of which the code
  reads the fields \<^verbatim>\<open>type\<close> and \<^verbatim>\<open>text\<close>, or not an object at all. A field is
  \<open>None\<close> when the object does not have it (for \<^verbatim>\<open>type\<close>: or when it is not a string).
\<close>

datatype content_block =
    ObjectBlock (block_type: "string option") (block_text: "string option")
  | NonObjectBlock

datatype content =
    StringContent string
  | ArrayContent "content_block list"
  | OtherContent

datatype tool_args = ToolArgs (arg_query: string) (arg_topK: "int option")

datatype tool_call = ToolCall (call_id: string) (call_name: string) (call_args: tool_args)

datatype message =
    HumanMessage content
  | AIMessage content "tool_call list"
  | SystemMessage content
  | ToolMessage content string

fun message_content :: "message \<Rightarrow> content" where
  "message_content (HumanMessage c) = c"
| "message_content (AIMessage c tcs) = c"
| "message_content (SystemMessage c) = c"
| "message_content (ToolMessage c tid) = c"

text \<open>Reading the field \<^verbatim>\<open>tool_calls\<close>: only an \<^verbatim>\<open>AIMessage\<close> has it.\<close>

fun tool_calls :: "message \<Rightarrow> tool_call list option" where
  "tool_calls (AIMessage c tcs) = Some tcs"
| "tool_calls m = None"

text \<open>\<^verbatim>\<open>xs[xs.length - 1]\<close>: \<^verbatim>\<open>undefined\<close> on the empty array.\<close>

definition last_message :: "message list \<Rightarrow> message option" where
  "last_message ms = (if ms = [] then None else Some (last ms))"

subsection \<open>\<^verbatim>\<open>getMessageText\<close> (utils)\<close>

text \<open>
  The filter of \<^verbatim>\<open>getMessageText\<close>:
  \<^verbatim>\<open>typeof block === "object" && block !== null && "type" in block && block.type === "text"\<close>.
\<close>

fun is_text_block :: "content_block \<Rightarrow> bool" where
  "is_text_block (ObjectBlock ty tx) = (ty = Some ''text'')"
| "is_text_block NonObjectBlock = False"

text \<open>
  \<^verbatim>\<open>block.text\<close> as \<^verbatim>\<open>join("")\<close> renders it: \<^verbatim>\<open>undefined\<close> joins as the empty
  string.
\<close>

fun joined_text :: "content_block \<Rightarrow> string" where
  "joined_text (ObjectBlock ty (Some s)) = s"
| "joined_text (ObjectBlock ty None) = []"
| "joined_text NonObjectBlock = []"

definition getMessageText :: "message \<Rightarrow> string" where
  "getMessageText m =
     (case message_content m of
        StringContent s \<Rightarrow> s
      | ArrayContent blocks \<Rightarrow> concat (map joined_text (filter is_text_block blocks))
      | OtherContent \<Rightarrow> [])"

section \<open>Conversation state (state/schemas)\<close>

record AgentState =
  messages :: "message list"
  currentStep :: string
  error :: "string option"
  iterations :: nat

text \<open>
  \<^verbatim>\<open>Partial<AgentStateUpdate>\<close>: a node returns only the channels it writes.
\<close>

record AgentStateUpdate =
  upd_messages :: "message list option"
  upd_currentStep :: "string option"
  upd_error :: "string option option"
  upd_iterations :: "nat option"

definition no_update :: AgentStateUpdate where
  "no_update = \<lparr>upd_messages = None, upd_currentStep = None, upd_error = None,
                 upd_iterations = None\<rparr>"

text \<open>
  Modelled from the spec: the reducer of the \<^verbatim>\<open>messages\<close> channel. The schema inherits it from
  the graph library (\<^verbatim>\<open>...MessagesAnnotation.spec\<close>); its code is not part of the sources.
  Section 4.1 of the specification gives the accepted merge rule: new messages are always added
  after all existing ones, in emission order.
\<close>

definition messagesStateReducer :: "message list \<Rightarrow> message list \<Rightarrow> message list" where
  "messagesStateReducer existing new = existing @ new"

text \<open>The reducer of the three other channels: \<^verbatim>\<open>(_prev, next) => next\<close>.\<close>

definition lastWriteWins :: "'a \<Rightarrow> 'a \<Rightarrow> 'a" where
  "lastWriteWins prev next = next"

text \<open>A channel is reduced only when the update writes it.\<close>

definition reduce_channel :: "('a \<Rightarrow> 'b \<Rightarrow> 'a) \<Rightarrow> 'a \<Rightarrow> 'b option \<Rightarrow> 'a" where
  "reduce_channel reducer prev written =
     (case written of None \<Rightarrow> prev | Some next \<Rightarrow> reducer prev next)"

definition applyUpdate :: "AgentState \<Rightarrow> AgentStateUpdate \<Rightarrow> AgentState" where
  "applyUpdate state upd =
     \<lparr>messages = reduce_channel messagesStateReducer (messages state) (upd_messages upd),
      currentStep = reduce_channel lastWriteWins (currentStep state) (upd_currentStep upd),
      error = reduce_channel lastWriteWins (error state) (upd_error upd),
      iterations = reduce_channel lastWriteWins (iterations state) (upd_iterations upd)\<rparr>"

text \<open>The channels' \<^verbatim>\<open>default\<close> values: the state of a new thread.\<close>

definition defaultState :: AgentState where
  "defaultState = \<lparr>messages = [], currentStep = ''idle'', error = None, iterations = 0\<rparr>"

section \<open>Router (nodes)\<close>

datatype route = RouteTools | RouteEnd

definition routeAgentResponse :: "AgentState \<Rightarrow> route" where
  "routeAgentResponse state =
     (if iterations state \<ge> 10 then RouteEnd
      else
        (case last_message (messages state) of
           None \<Rightarrow> RouteEnd
         | Some lastMessage \<Rightarrow>
             (case tool_calls lastMessage of
                None \<Rightarrow> RouteEnd
              | Some tcs \<Rightarrow> if length tcs > 0 then RouteTools else RouteEnd)))"

section \<open>Capabilities, configuration and effects\<close>

text \<open>
  What a \<^verbatim>\<open>catch (error)\<close> receives: an \<^verbatim>\<open>Error\<close> object with its \<^verbatim>\<open>message\<close>, or any
  other thrown value, kept as its \<^verbatim>\<open>String(error)\<close> rendering.
\<close>

datatype thrown = ErrorObject string | NonError string

text \<open>\<^verbatim>\<open>error instanceof Error ? error.message : String(error)\<close>\<close>

fun error_message :: "thrown \<Rightarrow> string" where
  "error_message (ErrorObject msg) = msg"
| "error_message (NonError rendering) = rendering"

text \<open>The response of the knowledge base: every level is optional in the client's types.\<close>

datatype kb_content = KBContent (content_text: "string option")

datatype kb_result = KBResult (result_content: "kb_content option")

datatype retrieve_response = RetrieveResponse (retrievalResults: "kb_result list option")

text \<open>The objects handed to \<^verbatim>\<open>JSON.stringify\<close>; an object keeps the order of its keys.\<close>

datatype json =
    JString string
  | JNumber int
  | JBool bool
  | JArray "json list"
  | JObject "(string \<times> json) list"

text \<open>
  The two fields of the validated configuration that the agent's core reads. Numbers are
  modelled as integers throughout.
\<close>

record Config =
  knowledgeBaseId :: string
  retrievalTopK :: int

text \<open>
  An environment variable under \<^verbatim>\<open>z.coerce.number()\<close>: not set, or set and coerced by
  \<^verbatim>\<open>Number(...)\<close> to \<^verbatim>\<open>NaN\<close> or to a number.
\<close>

datatype env_number = EnvUnset | EnvNaN | EnvNumber int

record Env =
  KNOWLEDGE_BASE_ID :: "string option"
  RETRIEVAL_TOP_K :: env_number

text \<open>
  \<^verbatim>\<open>getConfig\<close>, for these two fields:
  \<^verbatim>\<open>knowledgeBaseId: z.string().min(1, ...)\<close> and
  \<^verbatim>\<open>retrievalTopK: z.coerce.number().positive().default(5)\<close>. A failed parse throws a
  \<^verbatim>\<open>ZodError\<close>, whose message is abridged here to the text of its issue.
\<close>

definition parse_knowledgeBaseId :: "string option \<Rightarrow> thrown + string" where
  "parse_knowledgeBaseId raw =
     (case raw of
        None \<Rightarrow> Inl (ErrorObject ''Required'')
      | Some s \<Rightarrow> if length s \<ge> 1 then Inr s else Inl (ErrorObject ''KNOWLEDGE_BASE_ID is required''))"

definition parse_retrievalTopK :: "env_number \<Rightarrow> thrown + int" where
  "parse_retrievalTopK raw =
     (case raw of
        EnvUnset \<Rightarrow> Inr 5
      | EnvNaN \<Rightarrow> Inl (ErrorObject ''Expected number, received nan'')
      | EnvNumber n \<Rightarrow> if n > 0 then Inr n else Inl (ErrorObject ''Number must be greater than 0''))"

definition getConfig :: "Env \<Rightarrow> thrown + Config" where
  "getConfig env =
     (case parse_knowledgeBaseId (KNOWLEDGE_BASE_ID env) of
        Inl e \<Rightarrow> Inl e
      | Inr kb \<Rightarrow>
          (case parse_retrievalTopK (RETRIEVAL_TOP_K env) of
             Inl e \<Rightarrow> Inl e
           | Inr k \<Rightarrow> Inr \<lparr>knowledgeBaseId = kb, retrievalTopK = k\<rparr>))"

text \<open>
  The outside world of a run. \<open>llm\<close> is the Model Capability with the tools bound
  (\<^verbatim>\<open>llmWithTools.invoke\<close>): it answers a message list with the content and the tool calls of one
  \<^verbatim>\<open>AIMessage\<close>, or throws. \<open>kb_send\<close> is the Retrieval Capability (\<^verbatim>\<open>client.send\<close> of a
  \<^verbatim>\<open>RetrieveCommand\<close>: knowledge base id, query text, number of results): it returns the
  response, or throws. \<open>json_stringify\<close> is the runtime's \<^verbatim>\<open>JSON.stringify\<close>, \<open>config\<close> the
  cached configuration.
\<close>

record runtime =
  llm :: "message list \<Rightarrow> thrown + content \<times> tool_call list"
  kb_send :: "string \<Rightarrow> string \<Rightarrow> int \<Rightarrow> thrown + retrieve_response"
  json_stringify :: "json \<Rightarrow> string"
  config :: Config

text \<open>
  The effects of a run, in the order they happen: each function returns the list of the
  effects it caused next to its result. \<open>InvokeEntered query thread\<close> marks the entry of
  \<^verbatim>\<open>invokeAgent\<close>, \<open>ModelCall msgs\<close> a call of the Model Capability with its argument, and
  \<open>RetrieveCall kb query n\<close> a call of the Retrieval Capability with its arguments.
\<close>

datatype event =
    InvokeEntered string string
  | ModelCall "message list"
  | RetrieveCall string string int

section \<open>Agent step (nodes)\<close>

text \<open>
  The constant \<^verbatim>\<open>SYSTEM_PROMPT\<close>, abridged here to the opening words of its text: it is a fixed
  string, and nothing below depends on what it says.
\<close>

definition SYSTEM_PROMPT :: string where
  "SYSTEM_PROMPT = ''You are a Budget Book RAG Assistant''"

definition agentNode :: "runtime \<Rightarrow> AgentState \<Rightarrow> event list \<times> (thrown + AgentStateUpdate)" where
  "agentNode rt state =
     (let systemMessage = SystemMessage (StringContent SYSTEM_PROMPT);
          msgs = systemMessage # messages state
      in ([ModelCall msgs],
          case llm rt msgs of
            Inl e \<Rightarrow> Inl e
          | Inr (c, tcs) \<Rightarrow>
              Inr \<lparr>upd_messages = Some [AIMessage c tcs],
                   upd_currentStep = Some ''agent'',
                   upd_error = None,
                   upd_iterations = Some (iterations state + 1)\<rparr>))"

section \<open>Retrieval tool (tools/kb-retrieval)\<close>

text \<open>\<^verbatim>\<open>r.content?.text ?? ""\<close>\<close>

definition result_text :: "kb_result \<Rightarrow> string" where
  "result_text r =
     (case result_content r of
        None \<Rightarrow> []
      | Some c \<Rightarrow> (case content_text c of None \<Rightarrow> [] | Some t \<Rightarrow> t))"

text \<open>
  \<^verbatim>\<open>(response.retrievalResults ?? []).map(...).filter((text) => text.length > 0)\<close>
\<close>

definition usable_texts :: "retrieve_response \<Rightarrow> string list" where
  "usable_texts response =
     filter (\<lambda>t. length t > 0)
       (map result_text (case retrievalResults response of None \<Rightarrow> [] | Some rs \<Rightarrow> rs))"

text \<open>\<^verbatim>\<open>results.map((text, index) => ({ rank: index + 1, text }))\<close>\<close>

definition ranked_chunks :: "string list \<Rightarrow> json list" where
  "ranked_chunks results =
     map (\<lambda>(index, t). JObject [(''rank'', JNumber (int index + 1)), (''text'', JString t)])
       (enumerate 0 results)"

text \<open>The three objects the tool serialises.\<close>

definition no_results_payload :: "string \<Rightarrow> json" where
  "no_results_payload query =
     JObject [(''status'', JString ''no_results''),
              (''message'', JString
                 ''No relevant results found in the knowledge base for this query. Try rephrasing.''),
              (''query'', JString query)]"

definition success_payload :: "string \<Rightarrow> string list \<Rightarrow> json" where
  "success_payload query results =
     JObject [(''status'', JString ''success''),
              (''totalResults'', JNumber (int (length results))),
              (''query'', JString query),
              (''chunks'', JArray (ranked_chunks results))]"

definition error_payload :: "string \<Rightarrow> thrown \<Rightarrow> json" where
  "error_payload query err =
     JObject [(''status'', JString ''error''),
              (''message'', JString (''Failed to retrieve documents: '' @ error_message err)),
              (''query'', JString query)]"

text \<open>Reading a field of such an object.\<close>

definition json_field :: "string \<Rightarrow> json \<Rightarrow> json option" where
  "json_field k j = (case j of JObject kvs \<Rightarrow> map_of kvs k | _ \<Rightarrow> None)"

text \<open>
  The tool's function, with its result before serialisation: the \<^verbatim>\<open>try\<close> block is the
  \<open>Inr\<close> branch, the \<^verbatim>\<open>catch\<close> block the \<open>Inl\<close> branch.
\<close>

definition numberOfResults :: "Config \<Rightarrow> tool_args \<Rightarrow> int" where
  "numberOfResults cfg args =
     (case arg_topK args of None \<Rightarrow> retrievalTopK cfg | Some k \<Rightarrow> k)"

definition kbRetrievalPayload :: "runtime \<Rightarrow> tool_args \<Rightarrow> event list \<times> json" where
  "kbRetrievalPayload rt args =
     (let cfg = config rt;
          n = numberOfResults cfg args;
          query = arg_query args
      in ([RetrieveCall (knowledgeBaseId cfg) query n],
          case kb_send rt (knowledgeBaseId cfg) query n of
            Inr response \<Rightarrow>
              (let results = usable_texts response
               in if length results = 0 then no_results_payload query
                  else success_payload query results)
          | Inl err \<Rightarrow> error_payload query err))"

definition kbRetrievalTool :: "runtime \<Rightarrow> tool_args \<Rightarrow> event list \<times> string" where
  "kbRetrievalTool rt args =
     (let (evs, payload) = kbRetrievalPayload rt args in (evs, json_stringify rt payload))"

section \<open>Tool step\<close>

text \<open>
  Modelled from the spec: the Tool Step. The node is the graph library's prebuilt \<^verbatim>\<open>ToolNode\<close>
  over \<^verbatim>\<open>ragTools = [kbRetrievalTool]\<close>; the class is not part of the sources. Section 4.4 of
  the specification: the input is a state whose last message is an ai message; for each of its
  tool calls, in order, the tool is resolved by name (only \<^verbatim>\<open>knowledge_base_retrieval\<close> is
  registered) and run on the call's arguments, and its output becomes one tool message carrying
  the call's id; the update appends these in call order and sets \<^verbatim>\<open>currentStep = "tools"\<close>.
  Section 9: a name that resolves to no tool gives a \<^verbatim>\<open>status: error\<close> result. On any other
  input the step has no output: it fails.
\<close>

definition unknown_tool_payload :: "string \<Rightarrow> json" where
  "unknown_tool_payload name =
     JObject [(''status'', JString ''error''),
              (''message'', JString (''Unknown tool: '' @ name))]"

definition run_tool_call :: "runtime \<Rightarrow> tool_call \<Rightarrow> event list \<times> message" where
  "run_tool_call rt call =
     (if call_name call = ''knowledge_base_retrieval''
      then (let (evs, output) = kbRetrievalTool rt (call_args call)
            in (evs, ToolMessage (StringContent output) (call_id call)))
      else ([], ToolMessage (StringContent (json_stringify rt (unknown_tool_payload (call_name call))))
                  (call_id call)))"

definition toolNode :: "runtime \<Rightarrow> AgentState \<Rightarrow> event list \<times> (thrown + AgentStateUpdate)" where
  "toolNode rt state =
     (case last_message (messages state) of
        Some (AIMessage c tcs) \<Rightarrow>
          (let results = map (run_tool_call rt) tcs
           in (concat (map fst results),
               Inr \<lparr>upd_messages = Some (map snd results),
                    upd_currentStep = Some ''tools'',
                    upd_error = None,
                    upd_iterations = None\<rparr>))
      | _ \<Rightarrow> ([], Inl (ErrorObject ''ToolNode only accepts AIMessages as input.'')))"

section \<open>The graph (agents/rag-agent)\<close>

text \<open>
  \<^verbatim>\<open>buildRagAgentGraph\<close> declares two nodes and three edges:
  \<^verbatim>\<open>__start__ -> agent\<close>, the conditional edges of \<^verbatim>\<open>agent\<close> through
  \<^verbatim>\<open>routeAgentResponse\<close>, and \<^verbatim>\<open>tools -> agent\<close>. \<open>step\<close> runs the node the graph stands
  at, merges its update into the state through the channels' reducers and follows the edge out
  of it. A node that throws ends the run: its update is not applied.
\<close>

datatype node = START | AGENT | TOOLS | END

definition route_target :: "route \<Rightarrow> node" where
  "route_target r = (case r of RouteTools \<Rightarrow> TOOLS | RouteEnd \<Rightarrow> END)"

definition step :: "runtime \<Rightarrow> node \<Rightarrow> AgentState \<Rightarrow> event list \<times> (thrown + node \<times> AgentState)" where
  "step rt n state =
     (case n of
        START \<Rightarrow> ([], Inr (AGENT, state))
      | AGENT \<Rightarrow>
          (case agentNode rt state of
             (evs, Inl e) \<Rightarrow> (evs, Inl e)
           | (evs, Inr upd) \<Rightarrow>
               (let state' = applyUpdate state upd
                in (evs, Inr (route_target (routeAgentResponse state'), state'))))
      | TOOLS \<Rightarrow>
          (case toolNode rt state of
             (evs, Inl e) \<Rightarrow> (evs, Inl e)
           | (evs, Inr upd) \<Rightarrow> (evs, Inr (AGENT, applyUpdate state upd)))
      | END \<Rightarrow> ([], Inr (END, state)))"

text \<open>
  The loop guard bounds the run: an agent step raises \<open>iterations\<close> by one and is followed by a
  tool step only below the cap of 10.
\<close>

definition run_measure :: "node \<Rightarrow> AgentState \<Rightarrow> nat" where
  "run_measure n state =
     (case n of END \<Rightarrow> 0 | AGENT \<Rightarrow> 1 | TOOLS \<Rightarrow> 2 | START \<Rightarrow> 2) + 2 * (10 - iterations state)"

lemma step_run_measure:
  assumes "n \<noteq> END" and "step rt n state = (evs, Inr (n', state'))"
  shows "run_measure n' state' < run_measure n state"
proof (cases n)
  case START
  with assms show ?thesis by (auto simp: step_def run_measure_def)
next
  case AGENT
  with assms show ?thesis
    by (auto simp: step_def agentNode_def applyUpdate_def reduce_channel_def lastWriteWins_def
          routeAgentResponse_def route_target_def run_measure_def Let_def
        split: sum.splits prod.splits if_splits option.splits)
next
  case TOOLS
  with assms show ?thesis
    by (auto simp: step_def toolNode_def applyUpdate_def reduce_channel_def run_measure_def Let_def
        split: sum.splits prod.splits option.splits message.splits)
next
  case END
  with assms show ?thesis by simp
qed

text \<open>
  The run of the compiled graph from a node to \<^verbatim>\<open>__end__\<close>. It returns the effects, and either
  the final state or the error thrown together with the last state that was committed (the
  state the failing node was entered with).
\<close>

function run :: "runtime \<Rightarrow> node \<Rightarrow> AgentState \<Rightarrow> event list \<times> (thrown \<times> AgentState + AgentState)" where
  "run rt n state =
     (if n = END then ([], Inr state)
      else
        (case step rt n state of
           (evs, Inl e) \<Rightarrow> (evs, Inl (e, state))
         | (evs, Inr (n', state')) \<Rightarrow>
             (let (evs', outcome) = run rt n' state' in (evs @ evs', outcome))))"
  by pat_completeness auto
termination
proof (relation "measure (\<lambda>(rt, n, state). run_measure n state)", goal_cases)
  case 1
  show ?case by simp
next
  case (2 rt n state evs r c n' state')
  then have "step rt n state = (evs, Inr (n', state'))"
    by simp
  with 2(1) have "run_measure n' state' < run_measure n state"
    by (rule step_run_measure)
  with 2 show ?case by auto
qed

declare run.simps [simp del]

text \<open>The node and the state a run stands at after its first \<open>k\<close> steps, unless a node threw.\<close>

fun run_steps :: "runtime \<Rightarrow> nat \<Rightarrow> node \<Rightarrow> AgentState \<Rightarrow> thrown + node \<times> AgentState" where
  "run_steps rt 0 n state = Inr (n, state)"
| "run_steps rt (Suc k) n state =
     (case snd (step rt n state) of
        Inl e \<Rightarrow> Inl e
      | Inr (n', state') \<Rightarrow> run_steps rt k n' state')"

section \<open>Public API (agents/rag-agent)\<close>

record AgentInvokeOptions =
  query :: string
  threadId :: "string option"

text \<open>
  Modelled from the spec: the Checkpoint Store and the compiled graph's \<^verbatim>\<open>invoke\<close> over it
  (\<^verbatim>\<open>MemorySaver\<close> and the graph engine belong to the graph library, not to the sources).
  Sections 3 and 4.5 of the specification: the store holds the latest Conversation State per
  thread id; a run loads it (a new thread starts from the channels' defaults), merges the input
  into it through the reducers, so that the new human message is appended and \<open>iterations\<close> is
  carried over, and starts at \<^verbatim>\<open>START\<close>. Section 5: state is persisted only after a step
  completes.
\<close>

type_synonym checkpoints = "string \<rightharpoonup> AgentState"

definition graph_invoke ::
  "runtime \<Rightarrow> checkpoints \<Rightarrow> string \<Rightarrow> AgentStateUpdate
     \<Rightarrow> event list \<times> (thrown + AgentState) \<times> checkpoints" where
  "graph_invoke rt store thread input =
     (let loaded = (case store thread of None \<Rightarrow> defaultState | Some saved \<Rightarrow> saved);
          (evs, outcome) = run rt START (applyUpdate loaded input)
      in case outcome of
           Inl (e, committed) \<Rightarrow> (evs, Inl e, store(thread \<mapsto> committed))
         | Inr final \<Rightarrow> (evs, Inr final, store(thread \<mapsto> final)))"

text \<open>
  \<^verbatim>\<open>invokeAgent\<close>. \<open>generated\<close> is the id \<^verbatim>\<open>generateThreadId()\<close> would give (it is drawn from the
  clock and \<^verbatim>\<open>Math.random\<close>). Reading \<^verbatim>\<open>content\<close> of the last message throws a
  \<^verbatim>\<open>TypeError\<close> when there is no last message. The optional \<^verbatim>\<open>config\<close> of the options, which
  is passed on to the graph library, is left out.
\<close>

definition invokeAgent ::
  "runtime \<Rightarrow> string \<Rightarrow> checkpoints \<Rightarrow> AgentInvokeOptions
     \<Rightarrow> event list \<times> (thrown + string) \<times> checkpoints" where
  "invokeAgent rt generated store options =
     (let thread = (case threadId options of None \<Rightarrow> generated | Some t \<Rightarrow> t);
          userMessage = HumanMessage (StringContent (query options));
          (evs, result, store') =
             graph_invoke rt store thread
               \<lparr>upd_messages = Some [userMessage], upd_currentStep = None, upd_error = None,
                upd_iterations = None\<rparr>
      in (InvokeEntered (query options) thread # evs,
          (case result of
             Inl e \<Rightarrow> Inl e
           | Inr final \<Rightarrow>
               (case last_message (messages final) of
                  None \<Rightarrow> Inl (ErrorObject ''Cannot read properties of undefined (reading content)'')
                | Some lastMessage \<Rightarrow> Inr (getMessageText lastMessage))),
          store'))"

section \<open>The chat route (server)\<close>

text \<open>The field \<^verbatim>\<open>message\<close> of the request's JSON body (\<^verbatim>\<open>undefined\<close> when it is absent).\<close>

datatype js_value =
    JSUndefined
  | JSNull
  | JSBoolean bool
  | JSNumber int
  | JSString string
  | JSObject

text \<open>\<^verbatim>\<open>!v\<close>\<close>

fun falsy :: "js_value \<Rightarrow> bool" where
  "falsy JSUndefined = True"
| "falsy JSNull = True"
| "falsy (JSBoolean b) = (\<not> b)"
| "falsy (JSNumber n) = (n = 0)"
| "falsy (JSString s) = (s = [])"
| "falsy JSObject = False"

fun is_string :: "js_value \<Rightarrow> bool" where
  "is_string (JSString s) = True"
| "is_string v = False"

text \<open>
  \<^verbatim>\<open>String.prototype.trim\<close> on one-byte characters: tab, line feed, vertical tab, form feed,
  carriage return, space and no-break space are stripped from both ends.
\<close>

definition is_whitespace :: "char \<Rightarrow> bool" where
  "is_whitespace c = (of_char c \<in> {9, 10, 11, 12, 13, 32, 160 :: nat})"

definition trim :: "string \<Rightarrow> string" where
  "trim s = rev (dropWhile is_whitespace (rev (dropWhile is_whitespace s)))"

text \<open>
  \<^verbatim>\<open>!message || typeof message !== "string" || !message.trim()\<close>
\<close>

definition message_rejected :: "js_value \<Rightarrow> bool" where
  "message_rejected message =
     (falsy message \<or> \<not> is_string message \<or>
      (case message of JSString s \<Rightarrow> trim s = [] | _ \<Rightarrow> False))"

datatype http_response = HttpResponse (status: nat) (body: json)

text \<open>
  The handler of \<^verbatim>\<open>POST /api/chat\<close>. \<open>split_thinking\<close> stands for the two regular-expression
  passes over the raw answer (the \<^verbatim>\<open>thinking\<close> matches, and the answer without them). The
  last branch is the outer \<^verbatim>\<open>catch\<close>: \<^verbatim>\<open>message.trim()\<close> on a value that is not a string.
\<close>

definition chat_handler ::
  "runtime \<Rightarrow> string \<Rightarrow> (string \<Rightarrow> string list \<times> string) \<Rightarrow> checkpoints \<Rightarrow> js_value
     \<Rightarrow> event list \<times> http_response \<times> checkpoints" where
  "chat_handler rt generated split_thinking store message =
     (if message_rejected message
      then ([],
            HttpResponse 400
              (JObject [(''error'', JString ''No message provided''),
                        (''response'', JString ''Please provide a message to process.'')]),
            store)
      else
        (case message of
           JSString s \<Rightarrow>
             (let userMessage = trim s
              in case invokeAgent rt generated store \<lparr>query = userMessage, threadId = None\<rparr> of
                   (evs, Inr rawResponse, store') \<Rightarrow>
                     (let (thinkingMatches, answer) = split_thinking rawResponse
                      in (evs,
                          HttpResponse 200
                            (JObject [(''success'', JBool True),
                                      (''response'', JString answer),
                                      (''thinking'', JArray (map JString thinkingMatches)),
                                      (''message'', JString userMessage)]),
                          store'))
                 | (evs, Inl e, store') \<Rightarrow>
                     (evs,
                      HttpResponse 500
                        (JObject [(''error'', JString ''Processing error''),
                                  (''response'', JString
                                     (''I apologize, but I encountered an error processing your request: ''
                                        @ error_message e))]),
                      store'))
         | _ \<Rightarrow>
             ([],
              HttpResponse 500
                (JObject [(''error'', JString ''Server error''),
                          (''response'', JString ''An unexpected server error occurred. Please try again.'')]),
              store)))"

section \<open>Example runs\<close>

text \<open>
  Concrete capabilities for the examples below. \<open>first_string_field\<close> stands in for
  \<^verbatim>\<open>JSON.stringify\<close>: it keeps only the first field of an object, which for the tool's
  payloads is \<^verbatim>\<open>status\<close>.
\<close>

definition first_string_field :: "json \<Rightarrow> string" where
  "first_string_field j = (case j of JObject ((k, JString v) # kvs) \<Rightarrow> v | _ \<Rightarrow> [])"

definition budget_call :: tool_call where
  "budget_call = ToolCall ''call_1'' ''knowledge_base_retrieval'' (ToolArgs ''total budget'' None)"

text \<open>A model that asks for a retrieval on every turn, over a knowledge base that is down.\<close>

definition looping_runtime :: runtime where
  "looping_runtime =
     \<lparr>llm = (\<lambda>ms. Inr (StringContent ''Searching.'', [budget_call])),
      kb_send = (\<lambda>kb q k. Inl (ErrorObject ''socket hang up'')),
      json_stringify = first_string_field,
      config = \<lparr>knowledgeBaseId = ''KB1'', retrievalTopK = 5\<rparr>\<rparr>"

text \<open>The first turn of a new thread with that model.\<close>

definition first_turn :: "event list \<times> (thrown + string) \<times> checkpoints" where
  "first_turn =
     invokeAgent looping_runtime ''thread_g'' Map.empty
       \<lparr>query = ''How much is the total budget?'', threadId = Some ''thread_1''\<rparr>"

text \<open>A state in which the model has just asked for one retrieval.\<close>

definition tool_request_state :: AgentState where
  "tool_request_state =
     \<lparr>messages = [HumanMessage (StringContent ''How much is the total budget?''),
                  AIMessage (StringContent ''Searching.'') [budget_call]],
      currentStep = ''agent'', error = None, iterations = 1\<rparr>"

text \<open>
  A model that answers at once, over a knowledge base that returns three results, the second
  of them without text.
\<close>

definition three_results :: retrieve_response where
  "three_results =
     RetrieveResponse (Some [KBResult (Some (KBContent (Some ''Total: 4.2M''))),
                             KBResult None,
                             KBResult (Some (KBContent (Some ''Capital: 1.1M'')))])"

definition answering_runtime :: runtime where
  "answering_runtime =
     \<lparr>llm = (\<lambda>ms. Inr (StringContent ''The total budget is 4.2M.'', [])),
      kb_send = (\<lambda>kb q k. Inr three_results),
      json_stringify = first_string_field,
      config = \<lparr>knowledgeBaseId = ''KB1'', retrievalTopK = 5\<rparr>\<rparr>"

text \<open>
  A model that asks for one retrieval and times out when called again with the result.
\<close>

definition timing_out_runtime :: runtime where
  "timing_out_runtime =
     \<lparr>llm = (\<lambda>ms. if length ms \<le> 2 then Inr (StringContent ''Searching.'', [budget_call])
                   else Inl (ErrorObject ''Request timed out'')),
      kb_send = (\<lambda>kb q k. Inr three_results),
      json_stringify = first_string_field,
      config = \<lparr>knowledgeBaseId = ''KB1'', retrievalTopK = 5\<rparr>\<rparr>"

text \<open>The state of that run when the model is called for the second time.\<close>

definition timing_out_state :: AgentState where
  "timing_out_state =
     \<lparr>messages = [HumanMessage (StringContent ''How much is the total budget?''),
                  AIMessage (StringContent ''Searching.'') [budget_call],
                  ToolMessage (StringContent ''success'') ''call_1''],
      currentStep = ''tools'', error = None, iterations = 1\<rparr>"

text \<open>A configuration read from an environment that sets \<^verbatim>\<open>RETRIEVAL_TOP_K=8\<close>.\<close>

definition top8_env :: Env where
  "top8_env = \<lparr>KNOWLEDGE_BASE_ID = Some ''KB1'', RETRIEVAL_TOP_K = EnvNumber 8\<rparr>"

definition top8_runtime :: runtime where
  "top8_runtime = answering_runtime\<lparr>config := \<lparr>knowledgeBaseId = ''KB1'', retrievalTopK = 8\<rparr>\<rparr>"

text \<open>
  A final message of several blocks: two of type text, and between them a block of another
  type, a block without a type and an element that is not an object.
\<close>

definition multi_block_message :: message where
  "multi_block_message =
     AIMessage (ArrayContent [ObjectBlock (Some ''text'') (Some ''Total: ''),
                              ObjectBlock (Some ''tool_use'') (Some ''lookup''),
                              ObjectBlock None (Some ''untagged''),
                              NonObjectBlock,
                              ObjectBlock (Some ''text'') (Some ''4.2M'')]) []"

text \<open>
  A knowledge base that returns three results, the first of them with an empty text.
\<close>

definition blank_first_results :: retrieve_response where
  "blank_first_results =
     RetrieveResponse (Some [KBResult (Some (KBContent (Some []))),
                             KBResult (Some (KBContent (Some ''B''))),
                             KBResult (Some (KBContent (Some ''A'')))])"

definition blank_first_runtime :: runtime where
  "blank_first_runtime = answering_runtime\<lparr>kb_send := (\<lambda>kb q k. Inr blank_first_results)\<rparr>"

section \<open>The run, step by step\<close>

lemma run_END: "run rt END state = ([], Inr state)"
  by (simp add: run.simps)

lemma run_step:
  "n \<noteq> END \<Longrightarrow> run rt n state =
     (case step rt n state of
        (evs, Inl e) \<Rightarrow> (evs, Inl (e, state))
      | (evs, Inr (n', state')) \<Rightarrow>
          (let (evs', outcome) = run rt n' state' in (evs @ evs', outcome)))"
  by (subst run.simps) simp

lemma run_fail:
  "n \<noteq> END \<Longrightarrow> step rt n state = (evs, Inl e) \<Longrightarrow> run rt n state = (evs, Inl (e, state))"
  by (simp add: run_step)

lemma run_next:
  "n \<noteq> END \<Longrightarrow> step rt n state = (evs, Inr (n', state')) \<Longrightarrow>
     run rt n state = (evs @ fst (run rt n' state'), snd (run rt n' state'))"
  by (simp add: run_step split: prod.splits)

lemma step_START: "step rt START state = ([], Inr (AGENT, state))"
  by (simp add: step_def)

lemma agentNode_throws:
  "llm rt (SystemMessage (StringContent SYSTEM_PROMPT) # messages state) = Inl e \<Longrightarrow>
   agentNode rt state = ([ModelCall (SystemMessage (StringContent SYSTEM_PROMPT) # messages state)], Inl e)"
  by (simp add: agentNode_def)

lemma agentNode_returns:
  "llm rt (SystemMessage (StringContent SYSTEM_PROMPT) # messages state) = Inr (c, tcs) \<Longrightarrow>
   agentNode rt state =
     ([ModelCall (SystemMessage (StringContent SYSTEM_PROMPT) # messages state)],
      Inr \<lparr>upd_messages = Some [AIMessage c tcs], upd_currentStep = Some ''agent'',
           upd_error = None, upd_iterations = Some (iterations state + 1)\<rparr>)"
  by (simp add: agentNode_def)

lemma applyUpdate_agent:
  "applyUpdate state \<lparr>upd_messages = Some ms, upd_currentStep = Some s,
           upd_error = None, upd_iterations = Some k\<rparr> =
   state\<lparr>messages := messages state @ ms, currentStep := s, iterations := k\<rparr>"
  by (simp add: applyUpdate_def reduce_channel_def lastWriteWins_def messagesStateReducer_def)

lemma applyUpdate_tools:
  "applyUpdate state \<lparr>upd_messages = Some ms, upd_currentStep = Some s,
           upd_error = None, upd_iterations = None\<rparr> =
   state\<lparr>messages := messages state @ ms, currentStep := s\<rparr>"
  by (simp add: applyUpdate_def reduce_channel_def lastWriteWins_def messagesStateReducer_def)

lemma step_AGENT_throws:
  "llm rt (SystemMessage (StringContent SYSTEM_PROMPT) # messages state) = Inl e \<Longrightarrow>
   step rt AGENT state = ([ModelCall (SystemMessage (StringContent SYSTEM_PROMPT) # messages state)], Inl e)"
  by (simp add: step_def agentNode_throws)

lemma step_AGENT_returns:
  "llm rt (SystemMessage (StringContent SYSTEM_PROMPT) # messages state) = Inr (c, tcs) \<Longrightarrow>
   step rt AGENT state =
     ([ModelCall (SystemMessage (StringContent SYSTEM_PROMPT) # messages state)],
      Inr (if iterations state + 1 < 10 \<and> tcs \<noteq> [] then TOOLS else END,
           state\<lparr>messages := messages state @ [AIMessage c tcs], currentStep := ''agent'',
                  iterations := iterations state + 1\<rparr>))"
  by (auto simp: step_def agentNode_returns applyUpdate_agent routeAgentResponse_def
        last_message_def route_target_def Let_def)

lemma step_cases:
  assumes "step rt n state = (evs, Inr (n', state'))" and "n \<noteq> END"
  shows "(n = START \<and> n' = AGENT \<and> state' = state)
       \<or> (n = AGENT \<and> iterations state' = iterations state + 1
            \<and> (\<exists>c tcs. messages state' = messages state @ [AIMessage c tcs])
            \<and> (n' = TOOLS \<and> iterations state' < 10 \<or> n' = END))
       \<or> (n = TOOLS \<and> n' = AGENT \<and> iterations state' = iterations state)"
proof (cases n)
  case START
  with assms show ?thesis by (simp add: step_START)
next
  case AGENT
  show ?thesis
  proof (cases "llm rt (SystemMessage (StringContent SYSTEM_PROMPT) # messages state)")
    case (Inl e)
    with assms AGENT show ?thesis by (simp add: step_AGENT_throws)
  next
    case (Inr r)
    obtain c tcs where "r = (c, tcs)" by (cases r)
    with Inr assms AGENT show ?thesis
      by (auto simp: step_AGENT_returns split: if_splits)
  qed
next
  case TOOLS
  with assms show ?thesis
    by (auto simp: step_def toolNode_def applyUpdate_tools Let_def
        split: sum.splits prod.splits option.splits message.splits)
next
  case END
  with assms show ?thesis by simp
qed


lemma run_graph_induct [case_names node]:
  assumes "\<And>rt n state. (\<And>evs n' state'. n \<noteq> END \<Longrightarrow> step rt n state = (evs, Inr (n', state'))
              \<Longrightarrow> P rt n' state') \<Longrightarrow> P rt n state"
  shows "P rt n state"
proof (induction rt n state rule: run.induct)
  case (1 rt n state)
  show ?case
  proof (rule assms)
    fix evs n' state'
    assume "n \<noteq> END" and "step rt n state = (evs, Inr (n', state'))"
    then show "P rt n' state'"
      using "1.IH"[of evs "Inr (n', state')" "(n', state')" n' state']
      by simp
  qed
qed

lemma run_outcome:
  assumes "run rt n state = (evs, Inr final)" and "n \<noteq> END"
  obtains evs1 n' state' evs2 where "step rt n state = (evs1, Inr (n', state'))"
    and "run rt n' state' = (evs2, Inr final)" and "evs = evs1 @ evs2"
proof -
  obtain evs1 r where st: "step rt n state = (evs1, r)" by (cases "step rt n state")
  show thesis
  proof (cases r)
    case (Inl e)
    with st assms show thesis by (simp add: run_fail)
  next
    case (Inr c)
    obtain n' state' where c: "c = (n', state')" by (cases c)
    obtain evs2 out where rec: "run rt n' state' = (evs2, out)" by (cases "run rt n' state'")
    from st Inr c assms rec have "out = Inr final" and "evs = evs1 @ evs2"
      by (simp_all add: run_next)
    with st Inr c rec that show thesis by simp
  qed
qed

lemma run_iterations_bound:
  "run rt n state = (evs, Inr final) \<Longrightarrow>
   iterations final \<le> (if n = END then iterations state else max 10 (iterations state + 1))"
proof (induction rt n state arbitrary: evs rule: run_graph_induct)
  case (node rt n state)
  show ?case
  proof (cases "n = END")
    case True
    with node.prems show ?thesis by (simp add: run_END)
  next
    case False
    from node.prems False obtain evs1 n' state' evs2
      where st: "step rt n state = (evs1, Inr (n', state'))"
        and rec: "run rt n' state' = (evs2, Inr final)"
      by (rule run_outcome)
    from node.IH[OF False st rec] step_cases[OF st False] False show ?thesis
      by (auto split: if_splits)
  qed
qed

lemma run_iterations_grow:
  "run rt n state = (evs, Inr final) \<Longrightarrow>
   (if n = START \<or> n = AGENT then iterations state + 1 else iterations state) \<le> iterations final"
proof (induction rt n state arbitrary: evs rule: run_graph_induct)
  case (node rt n state)
  show ?case
  proof (cases "n = END")
    case True
    with node.prems show ?thesis by (simp add: run_END)
  next
    case False
    from node.prems False obtain evs1 n' state' evs2
      where st: "step rt n state = (evs1, Inr (n', state'))"
        and rec: "run rt n' state' = (evs2, Inr final)"
      by (rule run_outcome)
    from node.IH[OF False st rec] step_cases[OF st False] False show ?thesis
      by (auto split: if_splits)
  qed
qed

lemma run_final_message:
  "run rt n state = (evs, Inr final) \<Longrightarrow> n \<noteq> END \<Longrightarrow>
   \<exists>c tcs. last_message (messages final) = Some (AIMessage c tcs)"
proof (induction rt n state arbitrary: evs rule: run_graph_induct)
  case (node rt n state)
  from node.prems obtain evs1 n' state' evs2
    where st: "step rt n state = (evs1, Inr (n', state'))"
      and rec: "run rt n' state' = (evs2, Inr final)"
    by (rule run_outcome)
  show ?case
  proof (cases "n' = END")
    case True
    with rec have "final = state'" by (simp add: run_END)
    with step_cases[OF st \<open>n \<noteq> END\<close>] True show ?thesis
      by (auto simp: last_message_def)
  next
    case False
    with node.IH[OF \<open>n \<noteq> END\<close> st rec] show ?thesis by simp
  qed
qed

lemma ranked_chunks_nth:
  "ranked_chunks results =
     map (\<lambda>i. JObject [(''rank'', JNumber (int i + 1)), (''text'', JString (results ! i))])
       [0..<length results]"
  by (rule nth_equalityI) (simp_all add: ranked_chunks_def nth_enumerate_eq)

lemma run_AGENT_first_event:
  "\<exists>rest. fst (run rt AGENT state) =
     ModelCall (SystemMessage (StringContent SYSTEM_PROMPT) # messages state) # rest"
proof (cases "llm rt (SystemMessage (StringContent SYSTEM_PROMPT) # messages state)")
  case (Inl e)
  then show ?thesis
    by (simp add: run_fail[OF _ step_AGENT_throws])
next
  case (Inr r)
  obtain c tcs where "r = (c, tcs)" by (cases r)
  with Inr show ?thesis
    by (simp add: run_next[OF _ step_AGENT_returns])
qed

lemma run_tool_call_throws:
  assumes "call_name call = ''knowledge_base_retrieval''"
    and "kb_send rt (knowledgeBaseId (config rt)) (arg_query (call_args call))
           (numberOfResults (config rt) (call_args call)) = Inl err"
  shows "snd (run_tool_call rt call) =
     ToolMessage (StringContent (json_stringify rt (error_payload (arg_query (call_args call)) err)))
       (call_id call)"
  using assms
  by (simp add: run_tool_call_def kbRetrievalTool_def kbRetrievalPayload_def Let_def)

lemma error_payload_fields:
  "json_field ''status'' (error_payload q err) = Some (JString ''error'')"
  "json_field ''message'' (error_payload q err) =
     Some (JString (''Failed to retrieve documents: '' @ error_message err))"
  by (simp_all add: json_field_def error_payload_def)

lemma success_payload_fields:
  "json_field ''status'' (success_payload q results) = Some (JString ''success'')"
  "json_field ''totalResults'' (success_payload q results) = Some (JNumber (int (length results)))"
  "json_field ''chunks'' (success_payload q results) = Some (JArray (ranked_chunks results))"
  by (simp_all add: json_field_def success_payload_def)

lemma no_results_payload_fields:
  "json_field ''status'' (no_results_payload q) = Some (JString ''no_results'')"
  "json_field ''chunks'' (no_results_payload q) = None"
  by (simp_all add: json_field_def no_results_payload_def)

lemma usable_texts_filter:
  "usable_texts (RetrieveResponse (Some rs)) = filter (\<lambda>t. t \<noteq> []) (map result_text rs)"
  "usable_texts (RetrieveResponse None) = []"
  by (simp_all add: usable_texts_def)

lemma graph_invoke_iterations:
  assumes "graph_invoke rt store thread input = (evs, Inr final, store')"
    and "upd_iterations input = None"
  shows "store' thread = Some final
       \<and> iterations (case store thread of None \<Rightarrow> defaultState | Some saved \<Rightarrow> saved) + 1
            \<le> iterations final
       \<and> iterations final
            \<le> max 10 (iterations (case store thread of None \<Rightarrow> defaultState | Some saved \<Rightarrow> saved) + 1)"
proof -
  define loaded where "loaded = (case store thread of None \<Rightarrow> defaultState | Some saved \<Rightarrow> saved)"
  obtain evs1 out where r: "run rt START (applyUpdate loaded input) = (evs1, out)"
    by (cases "run rt START (applyUpdate loaded input)")
  from assms(1) r have out: "out = Inr final" and st: "store' = store(thread \<mapsto> final)"
    by (auto simp: graph_invoke_def loaded_def[symmetric] split: sum.splits prod.splits)
  from assms(2) have it: "iterations (applyUpdate loaded input) = iterations loaded"
    by (simp add: applyUpdate_def reduce_channel_def)
  from run_iterations_bound[OF r[unfolded out]] run_iterations_grow[OF r[unfolded out]] it st
  show ?thesis by (simp add: loaded_def)
qed

lemma run_steps_END: "run_steps rt k END state = Inr (END, state)"
  by (induction k) (simp_all add: step_def)

lemma run_steps_outcome:
  "run_steps rt k n state = Inr (n', state') \<Longrightarrow> n' \<noteq> END \<Longrightarrow>
   snd (run rt n state) = snd (run rt n' state')"
proof (induction k arbitrary: n state)
  case 0
  then show ?case by simp
next
  case (Suc k)
  from Suc.prems have "n \<noteq> END"
    by (auto simp: run_steps_END simp del: run_steps.simps)
  obtain evs r where st: "step rt n state = (evs, r)" by (cases "step rt n state")
  with Suc.prems obtain n1 state1 where r: "r = Inr (n1, state1)"
    and rest: "run_steps rt k n1 state1 = Inr (n', state')"
    by (auto split: sum.splits)
  from Suc.IH[OF rest Suc.prems(2)] run_next[OF \<open>n \<noteq> END\<close> st[unfolded r]]
  show ?case by simp
qed

lemma invokeAgent_enters:
  "\<exists>rest. fst (invokeAgent rt generated store options) =
     InvokeEntered (query options) (case threadId options of None \<Rightarrow> generated | Some t \<Rightarrow> t) # rest"
  by (simp add: invokeAgent_def Let_def split: prod.splits)

lemma chat_handler_accepts:
  assumes "message = JSString s" and "trim s \<noteq> []"
  shows "\<exists>rest. fst (chat_handler rt generated split_thinking store message) =
     InvokeEntered (trim s) generated # rest"
proof -
  from assms have "s \<noteq> []" by (auto simp: trim_def)
  with assms have nr: "\<not> message_rejected message"
    by (simp add: message_rejected_def)
  obtain rest where "fst (invokeAgent rt generated store \<lparr>query = trim s, threadId = None\<rparr>) =
      InvokeEntered (trim s) generated # rest"
    using invokeAgent_enters[of rt generated store "\<lparr>query = trim s, threadId = None\<rparr>"] by auto
  with nr assms show ?thesis
    by (auto simp: chat_handler_def Let_def split: prod.splits sum.splits)
qed

lemma concat_map_filter:
  "concat (map f (filter P xs)) = concat (map (\<lambda>x. if P x then f x else []) xs)"
  by (induction xs) simp_all

lemma invokeAgent_result:
  "fst (snd (invokeAgent rt generated store options)) =
     (case fst (snd (graph_invoke rt store (case threadId options of None \<Rightarrow> generated | Some t \<Rightarrow> t)
           \<lparr>upd_messages = Some [HumanMessage (StringContent (query options))],
             upd_currentStep = None, upd_error = None, upd_iterations = None\<rparr>)) of
        Inl e \<Rightarrow> Inl e
      | Inr final \<Rightarrow> Inr (getMessageText (last (messages final))))"
proof -
  define thread where "thread = (case threadId options of None \<Rightarrow> generated | Some t \<Rightarrow> t)"
  define input where "input = \<lparr>upd_messages = Some [HumanMessage (StringContent (query options))],
     upd_currentStep = None, upd_error = None, upd_iterations = None\<rparr>"
  obtain evs r s1 where g: "graph_invoke rt store thread input = (evs, r, s1)"
    by (cases "graph_invoke rt store thread input")
  show ?thesis
  proof (cases r)
    case (Inl e)
    with g show ?thesis
      by (simp add: invokeAgent_def thread_def[symmetric] input_def[symmetric])
  next
    case (Inr final)
    with g obtain evs1 where "run rt START
        (applyUpdate (case store thread of None \<Rightarrow> defaultState | Some saved \<Rightarrow> saved) input) =
          (evs1, Inr final)"
      by (auto simp: graph_invoke_def split: prod.splits sum.splits)
    from run_final_message[OF this] obtain c tcs
      where "last_message (messages final) = Some (AIMessage c tcs)" by auto
    then have "last_message (messages final) = Some (last (messages final))"
      by (auto simp: last_message_def split: if_splits)
    with g Inr show ?thesis
      by (simp add: invokeAgent_def thread_def[symmetric] input_def[symmetric])
  qed
qed

lemma result_text_cases:
  "result_text r = (case r of KBResult (Some (KBContent (Some t))) \<Rightarrow> t | _ \<Rightarrow> [])"
  by (simp add: result_text_def split: kb_result.splits option.splits kb_content.splits)

lemma usable_texts_response:
  "usable_texts response =
     filter (\<lambda>t. t \<noteq> [])
       (map (\<lambda>r. case r of KBResult (Some (KBContent (Some t))) \<Rightarrow> t | _ \<Rightarrow> [])
          (case response of RetrieveResponse (Some rs) \<Rightarrow> rs | RetrieveResponse None \<Rightarrow> []))"
proof -
  have "result_text = (\<lambda>r. case r of KBResult (Some (KBContent (Some t))) \<Rightarrow> t | _ \<Rightarrow> [])"
    by (rule ext) (rule result_text_cases)
  then show ?thesis
    by (simp add: usable_texts_def split: retrieve_response.splits option.splits)
qed

lemma text_block_contribution:
  "(if is_text_block b then joined_text b else []) =
     (case b of
        ObjectBlock (Some ty) (Some tx) \<Rightarrow> if ty = ''text'' then tx else []
      | _ \<Rightarrow> [])"
  by (cases b rule: joined_text.cases) (auto split: option.splits)

section \<open>Properties\<close>

text \<open>
  C2. The Router returns end whenever \<open>iterations \<ge> 10\<close>, even if the last message is an ai
  message with pending tool calls; otherwise it returns tools exactly when the last message is
  an ai message with a non-empty tool-call list, and end in every other case.
\<close>

theorem C2_router_decision:
  "routeAgentResponse state =
     (if 10 \<le> iterations state then RouteEnd
      else if \<exists>ms c tcs. messages state = ms @ [AIMessage c tcs] \<and> tcs \<noteq> [] then RouteTools
      else RouteEnd)"
proof (cases "messages state" rule: rev_cases)
  case Nil
  then show ?thesis
    by (simp add: routeAgentResponse_def last_message_def)
next
  case (snoc ms m)
  then show ?thesis
    by (cases m) (auto simp: routeAgentResponse_def last_message_def)
qed

text \<open>
  C1 (as amended). A run of \<^verbatim>\<open>invoke\<close> that reaches \<^verbatim>\<open>END\<close> leaves the thread's state with
  \<open>iterations\<close> at least \<open>p + 1\<close> and at most \<open>max 10 (p + 1)\<close>, where \<open>p\<close> is the value the run
  starts from: 0 on a new thread, the checkpoint's value on a resumed one. So the final value
  is at most 10 on every new thread and on every thread resumed with \<open>p \<le> 9\<close>.
\<close>

theorem C1_iterations_after_invoke:
  assumes "invokeAgent rt generated store options = (evs, Inr answer, store')"
  shows "\<exists>final.
           store' (case threadId options of None \<Rightarrow> generated | Some t \<Rightarrow> t) = Some final
         \<and> iterations
              (case store (case threadId options of None \<Rightarrow> generated | Some t \<Rightarrow> t) of
                 None \<Rightarrow> defaultState
               | Some saved \<Rightarrow> saved) + 1 \<le> iterations final
         \<and> iterations final
              \<le> max 10 (iterations
                           (case store (case threadId options of None \<Rightarrow> generated | Some t \<Rightarrow> t) of
                              None \<Rightarrow> defaultState
                            | Some saved \<Rightarrow> saved) + 1)"
proof -
  define thread where "thread = (case threadId options of None \<Rightarrow> generated | Some t \<Rightarrow> t)"
  define input where "input = \<lparr>upd_messages = Some [HumanMessage (StringContent (query options))],
     upd_currentStep = None, upd_error = None, upd_iterations = None\<rparr>"
  obtain evs1 r s1 where g: "graph_invoke rt store thread input = (evs1, r, s1)"
    by (cases "graph_invoke rt store thread input")
  from assms g obtain final where "r = Inr final" and "s1 = store'"
    by (auto simp: invokeAgent_def thread_def[symmetric] input_def[symmetric]
        split: sum.splits option.splits)
  with g have "graph_invoke rt store thread input = (evs1, Inr final, store')"
    by simp
  from graph_invoke_iterations[OF this] show ?thesis
    by (auto simp: input_def thread_def)
qed

text \<open>
  The first turn of the example thread ends with \<open>iterations = 10\<close>, within the bound for a new
  thread.
\<close>

theorem C1_iterations_after_invoke_witness:
  "\<exists>final. snd (snd first_turn) ''thread_1'' = Some final
         \<and> 1 \<le> iterations final \<and> iterations final \<le> 10"
proof -
  have answer: "fst (snd first_turn) = Inr ''Searching.''"
    by code_simp
  have "invokeAgent looping_runtime ''thread_g'' Map.empty
      \<lparr>query = ''How much is the total budget?'', threadId = Some ''thread_1''\<rparr> = first_turn"
    by (simp only: first_turn_def)
  also have "first_turn = (fst first_turn, Inr ''Searching.'', snd (snd first_turn))"
    by (simp only: answer[symmetric] prod.collapse)
  finally show ?thesis
    using C1_iterations_after_invoke by (fastforce simp: defaultState_def)
qed

text \<open>
  C1 as stated fails on a resumed thread: the first turn leaves the checkpoint of
  \<^verbatim>\<open>thread_1\<close> with \<open>iterations = 10\<close>, and the second turn on the same thread reaches \<^verbatim>\<open>END\<close>
  with \<open>iterations = 11\<close>.
\<close>

theorem C1_resumed_thread_counterexample:
  "map_option iterations (snd (snd first_turn) ''thread_1'') = Some 10
   \<and> fst (snd (invokeAgent looping_runtime ''thread_g'' (snd (snd first_turn))
              \<lparr>query = ''And last year?'', threadId = Some ''thread_1''\<rparr>)) = Inr ''Searching.''
   \<and> map_option iterations
       (snd (snd (invokeAgent looping_runtime ''thread_g'' (snd (snd first_turn))
              \<lparr>query = ''And last year?'', threadId = Some ''thread_1''\<rparr>)) ''thread_1'') = Some 11"
  by code_simp

text \<open>
  C3. A retrieval failure thrown during a Tool Step does not fail the step. The step gives one
  tool message per call; the message of each call whose retrieval throws carries the call's id
  and the serialised payload tagged \<^verbatim>\<open>status: error\<close> with a non-empty \<^verbatim>\<open>message\<close>; and the
  run goes on to an Agent Step, which calls the model with the history that ends in these
  tool messages.
\<close>

theorem C3_retrieval_failure_becomes_tool_message:
  assumes "last_message (messages state) = Some (AIMessage c tcs)"
  shows "\<exists>evs ms.
           step rt TOOLS state =
             (evs, Inr (AGENT, state\<lparr>messages := messages state @ ms, currentStep := ''tools''\<rparr>))
         \<and> length ms = length tcs
         \<and> (\<forall>i err. i < length tcs
               \<and> call_name (tcs ! i) = ''knowledge_base_retrieval''
               \<and> kb_send rt (knowledgeBaseId (config rt)) (arg_query (call_args (tcs ! i)))
                    (numberOfResults (config rt) (call_args (tcs ! i))) = Inl err
             \<longrightarrow> ms ! i =
                   ToolMessage
                     (StringContent
                        (json_stringify rt (error_payload (arg_query (call_args (tcs ! i))) err)))
                     (call_id (tcs ! i))
               \<and> json_field ''status'' (error_payload (arg_query (call_args (tcs ! i))) err) =
                   Some (JString ''error'')
               \<and> json_field ''message'' (error_payload (arg_query (call_args (tcs ! i))) err) =
                   Some (JString (''Failed to retrieve documents: '' @ error_message err))
               \<and> ''Failed to retrieve documents: '' @ error_message err \<noteq> [])
         \<and> (\<exists>rest. fst (run rt TOOLS state) =
               evs @ ModelCall (SystemMessage (StringContent SYSTEM_PROMPT) # messages state @ ms) # rest)"
proof -
  define results where "results = map (run_tool_call rt) tcs"
  define evs where "evs = concat (map fst results)"
  define ms where "ms = map snd results"
  define state' where "state' = state\<lparr>messages := messages state @ ms, currentStep := ''tools''\<rparr>"
  from assms have "toolNode rt state =
      (evs, Inr \<lparr>upd_messages = Some ms, upd_currentStep = Some ''tools'', upd_error = None,
                 upd_iterations = None\<rparr>)"
    by (simp add: toolNode_def results_def evs_def ms_def)
  then have st: "step rt TOOLS state = (evs, Inr (AGENT, state'))"
    by (simp add: step_def applyUpdate_tools state'_def)
  have len: "length ms = length tcs"
    by (simp add: ms_def results_def)
  have failing: "ms ! i =
          ToolMessage
            (StringContent (json_stringify rt (error_payload (arg_query (call_args (tcs ! i))) err)))
            (call_id (tcs ! i))"
    if "i < length tcs" and "call_name (tcs ! i) = ''knowledge_base_retrieval''"
      and "kb_send rt (knowledgeBaseId (config rt)) (arg_query (call_args (tcs ! i)))
             (numberOfResults (config rt) (call_args (tcs ! i))) = Inl err" for i err
  proof -
    from that(1) have "ms ! i = snd (run_tool_call rt (tcs ! i))"
      by (simp add: ms_def results_def)
    with run_tool_call_throws[OF that(2,3)] show ?thesis
      by simp
  qed
  obtain rest where "fst (run rt AGENT state') =
      ModelCall (SystemMessage (StringContent SYSTEM_PROMPT) # messages state') # rest"
    using run_AGENT_first_event by blast
  with st have "fst (run rt TOOLS state) =
      evs @ ModelCall (SystemMessage (StringContent SYSTEM_PROMPT) # messages state @ ms) # rest"
    by (simp add: run_next state'_def)
  with st len failing show ?thesis
    unfolding state'_def by (auto simp: error_payload_fields)
qed

text \<open>
  In the example state the one pending retrieval throws: the step gives the single tool message
  of \<^verbatim>\<open>call_1\<close> and hands over to the agent.
\<close>

theorem C3_retrieval_failure_becomes_tool_message_witness:
  "last_message (messages tool_request_state) = Some (AIMessage (StringContent ''Searching.'') [budget_call])
   \<and> (\<exists>evs.
         step looping_runtime TOOLS tool_request_state =
           (evs, Inr (AGENT, tool_request_state
                \<lparr>messages := messages tool_request_state @ [ToolMessage (StringContent ''error'') ''call_1''],
                  currentStep := ''tools''\<rparr>)))"
proof -
  have h: "last_message (messages tool_request_state) =
      Some (AIMessage (StringContent ''Searching.'') [budget_call])"
    by (simp add: tool_request_state_def last_message_def)
  have throws: "kb_send looping_runtime (knowledgeBaseId (config looping_runtime))
      (arg_query (call_args budget_call))
      (numberOfResults (config looping_runtime) (call_args budget_call)) =
        Inl (ErrorObject ''socket hang up'')"
    by (simp add: looping_runtime_def)
  from C3_retrieval_failure_becomes_tool_message[OF h, of looping_runtime]
  obtain evs ms where st: "step looping_runtime TOOLS tool_request_state =
        (evs, Inr (AGENT, tool_request_state
           \<lparr>messages := messages tool_request_state @ ms, currentStep := ''tools''\<rparr>))"
    and len: "length ms = 1"
    and m: "\<And>i err. i < length [budget_call]
               \<and> call_name ([budget_call] ! i) = ''knowledge_base_retrieval''
               \<and> kb_send looping_runtime (knowledgeBaseId (config looping_runtime))
                    (arg_query (call_args ([budget_call] ! i)))
                    (numberOfResults (config looping_runtime) (call_args ([budget_call] ! i))) = Inl err
             \<Longrightarrow> ms ! i =
                   ToolMessage
                     (StringContent
                        (json_stringify looping_runtime
                           (error_payload (arg_query (call_args ([budget_call] ! i))) err)))
                     (call_id ([budget_call] ! i))"
    by auto
  from m[of 0 "ErrorObject ''socket hang up''"] throws
  have "ms ! 0 = ToolMessage (StringContent ''error'') ''call_1''"
    by (simp add: budget_call_def looping_runtime_def error_payload_def first_string_field_def)
  with len have "ms = [ToolMessage (StringContent ''error'') ''call_1'']"
    by (cases ms) simp_all
  with st h show ?thesis by blast
qed

text \<open>
  C4. For every state update carrying new messages, the messages reducer merges by append-only
  concatenation: the existing history is kept unchanged as a prefix, and the new messages
  follow it in their emission order, with nothing duplicated, removed or reordered.
\<close>

theorem C4_messages_append_only:
  assumes "upd_messages upd = Some new"
  shows "messages (applyUpdate state upd) = messagesStateReducer (messages state) new
       \<and> take (length (messages state)) (messages (applyUpdate state upd)) = messages state
       \<and> drop (length (messages state)) (messages (applyUpdate state upd)) = new"
  using assms by (simp add: applyUpdate_def reduce_channel_def messagesStateReducer_def)

theorem C4_messages_append_only_witness:
  "messages (applyUpdate tool_request_state
      \<lparr>upd_messages = Some [ToolMessage (StringContent ''error'') ''call_1''],
        upd_currentStep = Some ''tools'', upd_error = None, upd_iterations = None\<rparr>) =
     [HumanMessage (StringContent ''How much is the total budget?''),
      AIMessage (StringContent ''Searching.'') [budget_call],
      ToolMessage (StringContent ''error'') ''call_1'']"
  using C4_messages_append_only[of
      "\<lparr>upd_messages = Some [ToolMessage (StringContent ''error'') ''call_1''],
        upd_currentStep = Some ''tools'', upd_error = None, upd_iterations = None\<rparr>"
      "[ToolMessage (StringContent ''error'') ''call_1'']" tool_request_state]
  by (simp add: messagesStateReducer_def tool_request_state_def)

text \<open>
  C5. If the Model Capability call inside an Agent Step throws, the failure reaches the invoker
  of the run unchanged: the agent node gives no update, the run stops at that model call, and
  \<^verbatim>\<open>invokeAgent\<close> fails with the same error, leaving as the thread's state the one the failing
  step was entered with (no ai message appended, the error not turned into a message). The
  failing step may be the first of the run or a later one.
\<close>

theorem C5_model_failure_propagates:
  assumes "run_steps rt k START
             (applyUpdate (case store thread of None \<Rightarrow> defaultState | Some saved \<Rightarrow> saved)
                \<lparr>upd_messages = Some [HumanMessage (StringContent q)], upd_currentStep = None,
                  upd_error = None, upd_iterations = None\<rparr>) = Inr (AGENT, state)"
    and "llm rt (SystemMessage (StringContent SYSTEM_PROMPT) # messages state) = Inl e"
  shows "snd (agentNode rt state) = Inl e
       \<and> run rt AGENT state =
           ([ModelCall (SystemMessage (StringContent SYSTEM_PROMPT) # messages state)], Inl (e, state))
       \<and> snd (invokeAgent rt generated store \<lparr>query = q, threadId = Some thread\<rparr>) =
           (Inl e, store(thread \<mapsto> state))"
proof -
  define state0 where "state0 =
    applyUpdate (case store thread of None \<Rightarrow> defaultState | Some saved \<Rightarrow> saved)
      \<lparr>upd_messages = Some [HumanMessage (StringContent q)], upd_currentStep = None,
        upd_error = None, upd_iterations = None\<rparr>"
  from assms(2) have a: "snd (agentNode rt state) = Inl e"
    by (simp add: agentNode_throws)
  from assms(2) have b: "run rt AGENT state =
      ([ModelCall (SystemMessage (StringContent SYSTEM_PROMPT) # messages state)], Inl (e, state))"
    by (simp add: run_fail[OF _ step_AGENT_throws])
  from assms(1) have "snd (run rt START state0) = snd (run rt AGENT state)"
    unfolding state0_def by (rule run_steps_outcome) simp
  with b have "snd (run rt START state0) = Inl (e, state)"
    by simp
  then obtain evs0 where "run rt START state0 = (evs0, Inl (e, state))"
    by (cases "run rt START state0") simp
  then have "snd (invokeAgent rt generated store \<lparr>query = q, threadId = Some thread\<rparr>) =
      (Inl e, store(thread \<mapsto> state))"
    by (simp add: invokeAgent_def graph_invoke_def state0_def[symmetric])
  with a b show ?thesis by simp
qed

text \<open>
  In the example the model times out on its second call, after one retrieval: the invoker
  gets that error, and the thread keeps the history up to the tool message.
\<close>

theorem C5_model_failure_propagates_witness:
  "fst (snd (invokeAgent timing_out_runtime ''thread_g'' Map.empty
          \<lparr>query = ''How much is the total budget?'', threadId = Some ''thread_1''\<rparr>)) =
     Inl (ErrorObject ''Request timed out'')
   \<and> snd (snd (invokeAgent timing_out_runtime ''thread_g'' Map.empty
          \<lparr>query = ''How much is the total budget?'', threadId = Some ''thread_1''\<rparr>)) ''thread_1'' =
     Some timing_out_state"
proof -
  have reach: "run_steps timing_out_runtime 3 START
      (applyUpdate (case Map.empty ''thread_1'' of None \<Rightarrow> defaultState | Some saved \<Rightarrow> saved)
         \<lparr>upd_messages = Some [HumanMessage (StringContent ''How much is the total budget?'')],
           upd_currentStep = None, upd_error = None, upd_iterations = None\<rparr>) =
        Inr (AGENT, timing_out_state)"
    by code_simp
  have fails: "llm timing_out_runtime
      (SystemMessage (StringContent SYSTEM_PROMPT) # messages timing_out_state) =
        Inl (ErrorObject ''Request timed out'')"
    by (simp add: timing_out_runtime_def timing_out_state_def)
  from C5_model_failure_propagates[OF reach fails, of "''thread_g''"] show ?thesis
    by simp
qed



text \<open>
  C7 (as amended). When the retrieval of a tool call succeeds, the results without a text or
  with an empty text are dropped, and the usable texts that remain keep their retrieval order.
  With at least one usable text the payload is tagged \<^verbatim>\<open>status: success\<close> and its chunks carry
  the ranks 1..n, where n is the number of usable texts and rank \<open>i\<close> holds the \<open>i\<close>-th usable
  text; with none the payload is tagged \<^verbatim>\<open>status: no_results\<close>. The Tool Step puts the
  serialised payload into the call's tool message.
\<close>

theorem C7_ranked_usable_chunks:
  assumes "kb_send rt (knowledgeBaseId (config rt)) (arg_query args)
             (case arg_topK args of None \<Rightarrow> retrievalTopK (config rt) | Some k \<Rightarrow> k) = Inr response"
    and "usable =
           filter (\<lambda>t. t \<noteq> [])
             (map (\<lambda>r. case r of KBResult (Some (KBContent (Some t))) \<Rightarrow> t | _ \<Rightarrow> [])
                (case response of RetrieveResponse (Some rs) \<Rightarrow> rs | RetrieveResponse None \<Rightarrow> []))"
  shows "snd (kbRetrievalPayload rt args) =
           (if usable = []
            then JObject [(''status'', JString ''no_results''),
                          (''message'', JString
                             ''No relevant results found in the knowledge base for this query. Try rephrasing.''),
                          (''query'', JString (arg_query args))]
            else JObject [(''status'', JString ''success''),
                          (''totalResults'', JNumber (int (length usable))),
                          (''query'', JString (arg_query args)),
                          (''chunks'',
                           JArray (map (\<lambda>i. JObject [(''rank'', JNumber (int i + 1)),
                                                      (''text'', JString (usable ! i))])
                                     [0..<length usable]))])
       \<and> snd (kbRetrievalTool rt args) = json_stringify rt (snd (kbRetrievalPayload rt args))
       \<and> snd (run_tool_call rt (ToolCall cid ''knowledge_base_retrieval'' args)) =
           ToolMessage (StringContent (json_stringify rt (snd (kbRetrievalPayload rt args)))) cid"
proof -
  from assms(2) have u: "usable_texts response = usable"
    by (simp add: usable_texts_response)
  from assms(1) have sent: "kb_send rt (knowledgeBaseId (config rt)) (arg_query args)
      (numberOfResults (config rt) args) = Inr response"
    by (simp add: numberOfResults_def)
  have payload: "snd (kbRetrievalPayload rt args) =
      (if usable = [] then no_results_payload (arg_query args)
       else success_payload (arg_query args) usable)"
    using sent u by (simp add: kbRetrievalPayload_def Let_def)
  have tool: "snd (kbRetrievalTool rt args) = json_stringify rt (snd (kbRetrievalPayload rt args))"
    by (simp add: kbRetrievalTool_def split: prod.splits)
  have msg: "snd (run_tool_call rt (ToolCall cid ''knowledge_base_retrieval'' args)) =
      ToolMessage (StringContent (json_stringify rt (snd (kbRetrievalPayload rt args)))) cid"
    by (simp add: run_tool_call_def kbRetrievalTool_def split: prod.splits)
  from payload tool msg show ?thesis
    by (simp add: no_results_payload_def success_payload_def ranked_chunks_nth)
qed

text \<open>
  Of the three results of the example the second has no text: the two usable ones get the
  ranks 1 and 2.
\<close>

theorem C7_ranked_usable_chunks_witness:
  "kb_send answering_runtime ''KB1'' ''total budget'' 5 = Inr three_results
   \<and> snd (kbRetrievalPayload answering_runtime (ToolArgs ''total budget'' None)) =
       JObject [(''status'', JString ''success''),
                (''totalResults'', JNumber 2),
                (''query'', JString ''total budget''),
                (''chunks'',
                 JArray [JObject [(''rank'', JNumber 1), (''text'', JString ''Total: 4.2M'')],
                         JObject [(''rank'', JNumber 2), (''text'', JString ''Capital: 1.1M'')]])]
   \<and> snd (run_tool_call answering_runtime budget_call) =
       ToolMessage (StringContent ''success'') ''call_1''"
proof -
  have h: "kb_send answering_runtime (knowledgeBaseId (config answering_runtime))
      (arg_query (ToolArgs ''total budget'' None))
      (case arg_topK (ToolArgs ''total budget'' None) of
         None \<Rightarrow> retrievalTopK (config answering_runtime) | Some k \<Rightarrow> k) = Inr three_results"
    by (simp add: answering_runtime_def)
  have u: "[''Total: 4.2M'', ''Capital: 1.1M''] =
      filter (\<lambda>t. t \<noteq> [])
        (map (\<lambda>r. case r of KBResult (Some (KBContent (Some t))) \<Rightarrow> t | _ \<Rightarrow> [])
           (case three_results of RetrieveResponse (Some rs) \<Rightarrow> rs | RetrieveResponse None \<Rightarrow> []))"
    by (simp add: three_results_def)
  have "[0..<2] = [0, 1]"
    by (simp add: upt_rec)
  with C7_ranked_usable_chunks[OF h u, of "''call_1''"] show ?thesis
    by (simp add: answering_runtime_def budget_call_def first_string_field_def)
qed

text \<open>
  C7 as stated fails when a returned chunk is not usable: of the three chunks returned here the
  first has an empty text, and rank 1 holds \<^verbatim>\<open>B\<close>, the second returned chunk.
\<close>

theorem C7_blank_first_chunk_counterexample:
  "kb_send blank_first_runtime ''KB1'' ''total budget'' 5 =
     Inr (RetrieveResponse (Some [KBResult (Some (KBContent (Some []))),
                                  KBResult (Some (KBContent (Some ''B''))),
                                  KBResult (Some (KBContent (Some ''A'')))]))
   \<and> snd (kbRetrievalPayload blank_first_runtime (ToolArgs ''total budget'' None)) =
       JObject [(''status'', JString ''success''),
                (''totalResults'', JNumber 2),
                (''query'', JString ''total budget''),
                (''chunks'',
                 JArray [JObject [(''rank'', JNumber 1), (''text'', JString ''B'')],
                         JObject [(''rank'', JNumber 2), (''text'', JString ''A'')]])]"
  by (simp add: blank_first_runtime_def blank_first_results_def answering_runtime_def
        kbRetrievalPayload_def numberOfResults_def usable_texts_def result_text_def
        success_payload_def ranked_chunks_def enumerate_eq_zip upt_rec Let_def)

text \<open>
  C8 (as amended). For a tool call whose arguments omit \<^verbatim>\<open>topK\<close>, the Retrieval Capability is
  invoked with the configured \<^verbatim>\<open>retrievalTopK\<close>, which is 5 when \<^verbatim>\<open>RETRIEVAL_TOP_K\<close> is not set
  and the (positive) number of the environment otherwise; when \<^verbatim>\<open>topK\<close> is present, it is
  invoked with the supplied value.
\<close>

theorem C8_topK_from_call_or_config:
  "fst (kbRetrievalTool rt args) =
     [RetrieveCall (knowledgeBaseId (config rt)) (arg_query args)
        (case arg_topK args of None \<Rightarrow> retrievalTopK (config rt) | Some k \<Rightarrow> k)]
   \<and> (getConfig env = Inr cfg \<longrightarrow>
        (RETRIEVAL_TOP_K env = EnvUnset \<longrightarrow> retrievalTopK cfg = 5)
      \<and> (\<forall>k. RETRIEVAL_TOP_K env = EnvNumber k \<longrightarrow> retrievalTopK cfg = k \<and> 0 < k))"
  by (auto simp: kbRetrievalTool_def kbRetrievalPayload_def numberOfResults_def Let_def
        getConfig_def parse_retrievalTopK_def
      split: sum.splits env_number.splits if_splits)

theorem C8_topK_from_call_or_config_witness:
  "getConfig \<lparr>KNOWLEDGE_BASE_ID = Some ''KB1'', RETRIEVAL_TOP_K = EnvUnset\<rparr> =
     Inr \<lparr>knowledgeBaseId = ''KB1'', retrievalTopK = 5\<rparr>
   \<and> retrievalTopK \<lparr>knowledgeBaseId = ''KB1'', retrievalTopK = 5\<rparr> = 5
   \<and> fst (kbRetrievalTool answering_runtime (ToolArgs ''total budget'' None)) =
       [RetrieveCall ''KB1'' ''total budget'' 5]
   \<and> fst (kbRetrievalTool answering_runtime (ToolArgs ''total budget'' (Some 3))) =
       [RetrieveCall ''KB1'' ''total budget'' 3]"
proof -
  have c: "getConfig \<lparr>KNOWLEDGE_BASE_ID = Some ''KB1'', RETRIEVAL_TOP_K = EnvUnset\<rparr> =
      Inr \<lparr>knowledgeBaseId = ''KB1'', retrievalTopK = 5\<rparr>"
    by (simp add: getConfig_def parse_knowledgeBaseId_def parse_retrievalTopK_def)
  from c C8_topK_from_call_or_config[of answering_runtime "ToolArgs ''total budget'' None"
      "\<lparr>KNOWLEDGE_BASE_ID = Some ''KB1'', RETRIEVAL_TOP_K = EnvUnset\<rparr>"
      "\<lparr>knowledgeBaseId = ''KB1'', retrievalTopK = 5\<rparr>"]
    C8_topK_from_call_or_config[of answering_runtime "ToolArgs ''total budget'' (Some 3)"
      "\<lparr>KNOWLEDGE_BASE_ID = Some ''KB1'', RETRIEVAL_TOP_K = EnvUnset\<rparr>"
      "\<lparr>knowledgeBaseId = ''KB1'', retrievalTopK = 5\<rparr>"]
  show ?thesis
    by (simp add: answering_runtime_def)
qed

text \<open>
  C8 as stated fails when the environment sets \<^verbatim>\<open>RETRIEVAL_TOP_K=8\<close>: a call that omits
  \<^verbatim>\<open>topK\<close> is sent to the knowledge base with 8 results asked for, not 5.
\<close>

theorem C8_configured_topK_counterexample:
  "getConfig top8_env = Inr (config top8_runtime)
   \<and> arg_topK (call_args budget_call) = None
   \<and> fst (kbRetrievalTool top8_runtime (call_args budget_call)) =
       [RetrieveCall ''KB1'' ''total budget'' 8]"
  by (simp add: top8_env_def top8_runtime_def answering_runtime_def budget_call_def
        getConfig_def parse_knowledgeBaseId_def parse_retrievalTopK_def
        kbRetrievalTool_def kbRetrievalPayload_def numberOfResults_def Let_def)

text \<open>
  C9. Every Agent Step calls the Model Capability once, with the state's full message history
  prefixed by the fixed system instruction message. When the model returns, the update appends
  exactly the one ai message it returned (the system instruction does not enter the history),
  sets \<^verbatim>\<open>currentStep\<close> to \<^verbatim>\<open>"agent"\<close> and raises \<open>iterations\<close> by one.
\<close>

theorem C9_agent_step:
  "fst (agentNode rt state) = [ModelCall (SystemMessage (StringContent SYSTEM_PROMPT) # messages state)]
   \<and> (\<forall>c tcs. llm rt (SystemMessage (StringContent SYSTEM_PROMPT) # messages state) = Inr (c, tcs) \<longrightarrow>
        (\<exists>upd. snd (agentNode rt state) = Inr upd
              \<and> upd_messages upd = Some [AIMessage c tcs]
              \<and> upd_currentStep upd = Some ''agent''
              \<and> upd_iterations upd = Some (iterations state + 1)
              \<and> applyUpdate state upd =
                   state\<lparr>messages := messages state @ [AIMessage c tcs], currentStep := ''agent'',
                          iterations := iterations state + 1\<rparr>))"
proof -
  have "fst (agentNode rt state) =
      [ModelCall (SystemMessage (StringContent SYSTEM_PROMPT) # messages state)]"
    by (simp add: agentNode_def Let_def)
  then show ?thesis
    by (simp add: agentNode_returns applyUpdate_agent)
qed

theorem C9_agent_step_witness:
  "llm timing_out_runtime
     [SystemMessage (StringContent SYSTEM_PROMPT),
      HumanMessage (StringContent ''How much is the total budget?'')] =
     Inr (StringContent ''Searching.'', [budget_call])
   \<and> (\<exists>upd. agentNode timing_out_runtime
               (defaultState\<lparr>messages := [HumanMessage (StringContent ''How much is the total budget?'')]\<rparr>) =
             ([ModelCall [SystemMessage (StringContent SYSTEM_PROMPT),
                          HumanMessage (StringContent ''How much is the total budget?'')]], Inr upd)
          \<and> applyUpdate (defaultState\<lparr>messages := [HumanMessage (StringContent ''How much is the total budget?'')]\<rparr>) upd =
              \<lparr>messages = [HumanMessage (StringContent ''How much is the total budget?''),
                           AIMessage (StringContent ''Searching.'') [budget_call]],
               currentStep = ''agent'', error = None, iterations = 1\<rparr>)"
proof -
  let ?s = "defaultState\<lparr>messages := [HumanMessage (StringContent ''How much is the total budget?'')]\<rparr>"
  have h: "llm timing_out_runtime (SystemMessage (StringContent SYSTEM_PROMPT) # messages ?s) =
      Inr (StringContent ''Searching.'', [budget_call])"
    by (simp add: timing_out_runtime_def)
  from C9_agent_step[of timing_out_runtime ?s] h
  obtain upd where "fst (agentNode timing_out_runtime ?s) =
        [ModelCall (SystemMessage (StringContent SYSTEM_PROMPT) # messages ?s)]"
      and "snd (agentNode timing_out_runtime ?s) = Inr upd"
      and "applyUpdate ?s upd = ?s\<lparr>messages := messages ?s @ [AIMessage (StringContent ''Searching.'') [budget_call]],
             currentStep := ''agent'', iterations := iterations ?s + 1\<rparr>"
    by blast
  then have "agentNode timing_out_runtime ?s =
        ([ModelCall [SystemMessage (StringContent SYSTEM_PROMPT),
                     HumanMessage (StringContent ''How much is the total budget?'')]], Inr upd)
      \<and> applyUpdate ?s upd =
          \<lparr>messages = [HumanMessage (StringContent ''How much is the total budget?''),
                       AIMessage (StringContent ''Searching.'') [budget_call]],
           currentStep = ''agent'', error = None, iterations = 1\<rparr>"
    by (cases "agentNode timing_out_runtime ?s") (simp add: defaultState_def)
  with h show ?thesis by auto
qed

text \<open>
  C10. \<^verbatim>\<open>getMessageText\<close> is total over the shapes of \<^verbatim>\<open>content\<close>: a string is returned unchanged;
  an array gives the concatenation, in order, of the \<^verbatim>\<open>text\<close> fields of its blocks of type
  \<^verbatim>\<open>"text"\<close>, every other block contributing nothing; any other content gives the empty
  string. And \<^verbatim>\<open>invokeAgent\<close> fails only with the error of its run: whenever the run reaches
  \<^verbatim>\<open>END\<close> there is a last message, and the result is its text.
\<close>

theorem C10_getMessageText_total:
  "(let text_of = (\<lambda>c. case c of
        StringContent s \<Rightarrow> s
      | ArrayContent blocks \<Rightarrow>
          concat (map (\<lambda>b. case b of
                              ObjectBlock (Some ty) (Some tx) \<Rightarrow> if ty = ''text'' then tx else []
                            | _ \<Rightarrow> []) blocks)
      | OtherContent \<Rightarrow> [])
    in getMessageText (HumanMessage c) = text_of c
     \<and> getMessageText (AIMessage c tcs) = text_of c
     \<and> getMessageText (SystemMessage c) = text_of c
     \<and> getMessageText (ToolMessage c tid) = text_of c)
   \<and> fst (snd (invokeAgent rt generated store options)) =
       (case fst (snd (graph_invoke rt store
                         (case threadId options of None \<Rightarrow> generated | Some t \<Rightarrow> t)
                         \<lparr>upd_messages = Some [HumanMessage (StringContent (query options))],
                           upd_currentStep = None, upd_error = None, upd_iterations = None\<rparr>)) of
          Inl e \<Rightarrow> Inl e
        | Inr final \<Rightarrow> Inr (getMessageText (last (messages final))))"
  by (simp add: invokeAgent_result getMessageText_def concat_map_filter text_block_contribution
        Let_def split: content.splits)

text \<open>
  Of the five blocks of the example only the two of type text are read: the text of the
  \<^verbatim>\<open>tool_use\<close> block and of the block without a type is skipped.
\<close>

theorem C10_getMessageText_total_witness:
  "getMessageText multi_block_message = ''Total: 4.2M''
   \<and> getMessageText (AIMessage OtherContent []) = []
   \<and> getMessageText (ToolMessage (StringContent ''success'') ''call_1'') = ''success''"
  using C10_getMessageText_total[of
          "ArrayContent [ObjectBlock (Some ''text'') (Some ''Total: ''),
                         ObjectBlock (Some ''tool_use'') (Some ''lookup''),
                         ObjectBlock None (Some ''untagged''),
                         NonObjectBlock,
                         ObjectBlock (Some ''text'') (Some ''4.2M'')]" "[]"]
        C10_getMessageText_total[of OtherContent "[]"]
        C10_getMessageText_total[of "StringContent ''success''" _ "''call_1''"]
  by (simp add: multi_block_message_def Let_def)

end
